theory Spec2Isabelle
  imports Main
begin

section \<open>Data model\<close>

text \<open>
  Documents of the ticketing backend, as the handlers read and write them.
  An ObjectId is its hexadecimal text (the handlers compare ids through
  \<^verbatim>\<open>toString()\<close>), a Date is a number of milliseconds, a Number that
  carries money or a counter is a whole number.  The persistence layer is a
  document store: a collection is the list of its documents in insertion order.
  The schemas are strict (no schema sets \<^verbatim>\<open>strict: false\<close>): a document
  holds the paths that its schema declares, and a write to any other path is
  dropped.  Schema options that the sources declare (the \<^verbatim>\<open>immutable\<close>
  flag of \<^verbatim>\<open>qrData\<close>, the unique index on \<^verbatim>\<open>qrData\<close>, the defaults,
  \<^verbatim>\<open>timestamps\<close>) are part of the model.
\<close>

type_synonym objectId = string
type_synonym date = nat

text \<open>
  \<^verbatim>\<open>AppError(message, statusCode)\<close> of errorHandler.js, the plain
  \<^verbatim>\<open>Error(message)\<close> that the model methods throw, the duplicate-key error
  of a unique index, the TypeError of a property read on \<^verbatim>\<open>null\<close>, and the
  ReferenceError of a name that nothing binds.  \<open>UnhandledRejection\<close> stands
  for a handler whose \<^verbatim>\<open>catch\<close> block throws itself: the promise of the
  handler rejects, no response is sent and the process exits
  (\<^verbatim>\<open>process.on('unhandledRejection', ...)\<close> of app.js).
\<close>

datatype error =
    AppError string nat
  | Error string
  | DuplicateKeyError
  | TypeError
  | ReferenceError
  | UnhandledRejection

text \<open>
  errorHandler.js: \<^verbatim>\<open>err.statusCode = err.statusCode || 500\<close>.  An unhandled
  rejection never reaches the error handler; 0 stands for no response.
\<close>

fun statusCode :: "error \<Rightarrow> nat" where
  "statusCode (AppError m c) = (if c = 0 then 500 else c)"
| "statusCode (Error m) = 500"
| "statusCode DuplicateKeyError = 500"
| "statusCode TypeError = 500"
| "statusCode ReferenceError = 500"
| "statusCode UnhandledRejection = 0"

datatype ticket_status = ACTIVE | REFUNDED | USED | TRANSFERRED

datatype refund_status = PENDING | COMPLETED | FAILED

record transfer_entry =
  tr_from :: objectId
  tr_to :: objectId
  tr_date :: date

record validation_entry =
  timestamp :: date
  validatedBy :: objectId
  location :: string

record refund_entry =
  refund_id :: objectId
  idempotencyKey :: string
  processedAt :: date
  processedBy :: objectId
  amount :: int
  reason :: string
  refund_state :: refund_status

text \<open>
  TicketSchema of backend/models/Ticket.js.  The schema declares none of
  \<^verbatim>\<open>qrCode\<close>, \<^verbatim>\<open>paymentStatus\<close>, \<^verbatim>\<open>transactionId\<close> and
  \<^verbatim>\<open>paymentMethod\<close>, so no route stores them.  The validate route queries
  the collection on \<^verbatim>\<open>qrCode\<close>; the field \<open>qrCode\<close> is what a document of
  the collection holds under that name, which is nothing for every document
  written through the model.
\<close>

record ticket =
  ticket_id :: objectId
  event :: objectId
  owner :: objectId
  qrData :: string
  qrCode :: "string option"
  isUsed :: bool
  price :: int
  tier :: string
  transferHistory :: "transfer_entry list"
  validationHistory :: "validation_entry list"
  status :: ticket_status
  refundHistory :: "refund_entry list"
  updatedAt :: date

text \<open>
  A tier of EventSchema (all files/Event.js, the only Event schema of the
  sources): name, price, capacity and the optional \<^verbatim>\<open>available\<close>.  The
  schema declares no \<^verbatim>\<open>sold\<close> path.
\<close>

record ticketType =
  name :: string
  tier_price :: int
  capacity :: int
  available :: "int option"

record event_doc =
  event_id :: objectId
  event_name :: string
  ticketTypes :: "ticketType list"

record user_doc =
  user_id :: objectId
  email :: string

record db =
  tickets :: "ticket list"
  events :: "event_doc list"
  users :: "user_doc list"

section \<open>Persistence operations\<close>

text \<open>\<^verbatim>\<open>Ticket.findById(id)\<close>: the document with that \<^verbatim>\<open>_id\<close>, or null.\<close>

definition findById :: "ticket list \<Rightarrow> objectId \<Rightarrow> ticket option" where
  "findById ts i = find (\<lambda>t. ticket_id t = i) ts"

text \<open>
  \<^verbatim>\<open>doc.save()\<close> of a document that was loaded from the collection: the stored
  document with the same \<^verbatim>\<open>_id\<close> is replaced, and \<^verbatim>\<open>timestamps: true\<close>
  stamps \<^verbatim>\<open>updatedAt\<close>.
\<close>

definition save :: "ticket list \<Rightarrow> ticket \<Rightarrow> date \<Rightarrow> ticket list" where
  "save ts t now =
     map (\<lambda>s. if ticket_id s = ticket_id t then t\<lparr>updatedAt := now\<rparr> else s) ts"

section \<open>Refund (models/Ticket.js and the refund controller)\<close>

text \<open>
  \<^verbatim>\<open>TicketSchema.methods.processRefund(refundReason, processedBy, idempotencyKey)\<close>.
  The method throws plain errors for a used or an already refunded ticket;
  otherwise it sets the status and pushes one refund entry.  \<open>now\<close> is the
  reading of \<^verbatim>\<open>new Date()\<close> and \<open>newId\<close> the \<^verbatim>\<open>_id\<close> that the store gives
  the pushed subdocument.
\<close>

definition Ticket_processRefund ::
  "ticket \<Rightarrow> string \<Rightarrow> objectId \<Rightarrow> string \<Rightarrow> date \<Rightarrow> objectId \<Rightarrow> error + ticket" where
  "Ticket_processRefund t refundReason byUser k now newId =
     (if isUsed t then Inl (Error ''Cannot refund used ticket'')
      else if status t = REFUNDED then Inl (Error ''Ticket already refunded'')
      else Inr (t\<lparr>status := REFUNDED,
                  refundHistory := refundHistory t @
                    [\<lparr>refund_id = newId, idempotencyKey = k, processedAt = now,
                      processedBy = byUser, amount = price t, reason = refundReason,
                      refund_state = COMPLETED\<rparr>]\<rparr>))"

text \<open>The request of \<^verbatim>\<open>POST /:ticketId/refund\<close> after the auth and idempotency middleware.\<close>

record refund_request =
  rq_ticketId :: objectId
  rq_user :: objectId
  rq_reason :: string
  rq_idempotencyKey :: string
  rq_now :: date
  rq_newId :: objectId

text \<open>The two JSON bodies that the controller sends with status 200.\<close>

datatype refund_body =
    Deduplicated refund_status date
  | Completed int string objectId date

text \<open>\<^verbatim>\<open>refundHistory.find((r) => r.idempotencyKey === idempotencyKey)\<close>.\<close>

definition findRefund :: "refund_entry list \<Rightarrow> string \<Rightarrow> refund_entry option" where
  "findRefund rs k = find (\<lambda>r. idempotencyKey r = k) rs"

text \<open>
  \<^verbatim>\<open>Ticket.findOne({ _id: ticketId, 'refundHistory.idempotencyKey': idempotencyKey })\<close>.
\<close>

definition findExistingRefund :: "ticket list \<Rightarrow> objectId \<Rightarrow> string \<Rightarrow> ticket option" where
  "findExistingRefund ts i k =
     find (\<lambda>t. ticket_id t = i \<and> findRefund (refundHistory t) k \<noteq> None) ts"

text \<open>
  \<^verbatim>\<open>exports.processRefund\<close>: the idempotency lookup first, then existence and
  ownership, then the model method and the response.  The result is the error
  passed to \<^verbatim>\<open>next\<close> or the status and body sent, with the store afterwards.
\<close>

definition processRefund :: "db \<Rightarrow> refund_request \<Rightarrow> (error + nat \<times> refund_body) \<times> db" where
  "processRefund st rq =
     (case findExistingRefund (tickets st) (rq_ticketId rq) (rq_idempotencyKey rq) of
        Some existing \<Rightarrow>
          (case findRefund (refundHistory existing) (rq_idempotencyKey rq) of
             Some refund \<Rightarrow>
               (Inr (200, Deduplicated (refund_state refund) (processedAt refund)), st)
           | None \<Rightarrow> (Inl TypeError, st))
      | None \<Rightarrow>
          (case findById (tickets st) (rq_ticketId rq) of
             None \<Rightarrow> (Inl (AppError ''Ticket not found'' 404), st)
           | Some t \<Rightarrow>
               if owner t \<noteq> rq_user rq
               then (Inl (AppError ''You do not own this ticket'' 403), st)
               else
                 (case Ticket_processRefund t (rq_reason rq) (rq_user rq)
                         (rq_idempotencyKey rq) (rq_now rq) (rq_newId rq) of
                    Inl e \<Rightarrow> (Inl e, st)
                  | Inr t' \<Rightarrow>
                      (case findRefund (refundHistory t') (rq_idempotencyKey rq) of
                         None \<Rightarrow> (Inl TypeError, st\<lparr>tickets := save (tickets st) t' (rq_now rq)\<rparr>)
                       | Some newRefund \<Rightarrow>
                           (Inr (200, Completed (price t') ''SZL'' (refund_id newRefund)
                                        (processedAt newRefund)),
                            st\<lparr>tickets := save (tickets st) t' (rq_now rq)\<rparr>)))))"

section \<open>Payment webhook (controllers/paymentWebhooks.js)\<close>

text \<open>
  The JSON body of a delivery: a field that is absent or null is \<open>None\<close>.
  The optional \<^verbatim>\<open>customer\<close> object is read only by the construction of
  the payment record and is left out.
\<close>

record webhook_payload =
  wp_transactionId :: "string option"
  wp_status :: "string option"
  wp_ticketIds :: "objectId list option"
  wp_amount :: "int option"
  wp_currency :: "string option"
  wp_paymentMethod :: "string option"

record webhook_request =
  hdr_idempotency_key :: "string option"
  hdr_signature :: "string option"
  body :: webhook_payload
  wh_now :: date

text \<open>The 200 response: \<^verbatim>\<open>{ acknowledged: true, timestamp, transactionId, ticketCount }\<close>.\<close>

record acknowledgement =
  ack_code :: nat
  acknowledged :: bool
  ack_timestamp :: date
  ack_transactionId :: string
  ack_ticketCount :: nat

text \<open>JavaScript truthiness of an optional string: present and not empty.\<close>

definition truthy :: "string option \<Rightarrow> bool" where
  "truthy s = (case s of None \<Rightarrow> False | Some v \<Rightarrow> v \<noteq> [])"

text \<open>
  The test of step 4: \<^verbatim>\<open>!transactionId || !status || !ticketIds?.length || !amount ||
  !currency || !paymentMethod\<close>.
\<close>

definition missingRequiredFields :: "webhook_payload \<Rightarrow> bool" where
  "missingRequiredFields b =
     (\<not> truthy (wp_transactionId b) \<or> \<not> truthy (wp_status b) \<or>
      (case wp_ticketIds b of None \<Rightarrow> True | Some ids \<Rightarrow> ids = []) \<or>
      (case wp_amount b of None \<Rightarrow> True | Some a \<Rightarrow> a = 0) \<or>
      \<not> truthy (wp_currency b) \<or> \<not> truthy (wp_paymentMethod b))"

text \<open>\<^verbatim>\<open>Ticket.find({ _id: { $in: ticketIds } })\<close>.\<close>

definition findTickets :: "ticket list \<Rightarrow> objectId list \<Rightarrow> ticket list" where
  "findTickets ts ids = filter (\<lambda>t. ticket_id t \<in> set ids) ts"

text \<open>
  \<^verbatim>\<open>t.transactionId\<close> of a ticket loaded through the model: TicketSchema
  declares no such path, so the property is undefined on every document.
\<close>

definition transactionId :: "ticket \<Rightarrow> string option" where
  "transactionId t = None"

text \<open>
  The \<^verbatim>\<open>$set\<close> of the success path, applied by \<^verbatim>\<open>Ticket.updateOne({ _id })\<close>
  to every ticket found (an \<^verbatim>\<open>_id\<close> is unique in its collection).  Of the
  paths \<^verbatim>\<open>paymentStatus\<close>, \<^verbatim>\<open>transactionId\<close>, \<^verbatim>\<open>paymentMethod\<close> and
  \<^verbatim>\<open>updatedAt\<close> only the last one is a path of the schema; the others are
  dropped.
\<close>

definition confirmTickets ::
  "ticket list \<Rightarrow> objectId list \<Rightarrow> string \<Rightarrow> string \<Rightarrow> date \<Rightarrow> ticket list" where
  "confirmTickets ts ids txn pm now =
     map (\<lambda>t. if ticket_id t \<in> set ids then t\<lparr>updatedAt := now\<rparr> else t) ts"

text \<open>
  The \<^verbatim>\<open>updateMany\<close> of the failed path: of \<^verbatim>\<open>paymentStatus\<close>,
  \<^verbatim>\<open>transactionId\<close> and \<^verbatim>\<open>updatedAt\<close> only the last one is stored.
\<close>

definition failTickets :: "ticket list \<Rightarrow> objectId list \<Rightarrow> string \<Rightarrow> date \<Rightarrow> ticket list" where
  "failTickets ts ids txn now =
     map (\<lambda>t. if ticket_id t \<in> set ids then t\<lparr>updatedAt := now\<rparr> else t) ts"

text \<open>
  \<^verbatim>\<open>Event.updateOne({ _id: eventId }, { $inc: { 'ticketTypes.$[elem].sold': 1 } },
  { arrayFilters: [{ 'elem.name': { $in: names } }] })\<close>.  The tiers of
  EventSchema have no \<^verbatim>\<open>sold\<close> path: the \<^verbatim>\<open>$inc\<close> is dropped and the
  update leaves every tier of every event as it is.
\<close>

definition updateEventSold :: "event_doc list \<Rightarrow> objectId \<Rightarrow> string list \<Rightarrow> event_doc list" where
  "updateEventSold es i names = es"

text \<open>
  \<^verbatim>\<open>session.abortTransaction()\<close>: the writes staged in the transaction are
  discarded and the store is the one before it.
\<close>

definition abortTransaction :: "db \<Rightarrow> db \<Rightarrow> db" where
  "abortTransaction before staged = before"

text \<open>
  \<^verbatim>\<open>exports.handlePaymentWebhook\<close>.  \<open>sign\<close> is the hex digest of
  \<^verbatim>\<open>crypto.createHmac('sha256', PAYMENT_WEBHOOK_SECRET).update(JSON.stringify(req.body))\<close>.
  Every throw inside the \<^verbatim>\<open>try\<close> block aborts the transaction, so the store
  is the one before the delivery.  In the success path the updates of the
  tickets and of the event are staged, and then \<^verbatim>\<open>new Payment(...)\<close> is
  evaluated: no \<^verbatim>\<open>require\<close> of the controller binds \<^verbatim>\<open>Payment\<close>, so this
  throws a ReferenceError before \<^verbatim>\<open>commitTransaction\<close> and the staged writes
  are discarded.  The sources also hold an earlier copy of the controller,
  whose signature test compares the header with the secret itself and whose
  success path has no duplicate gate; the definition follows the controller
  under backend/controllers.
\<close>

definition handlePaymentWebhook ::
  "(webhook_payload \<Rightarrow> string) \<Rightarrow> db \<Rightarrow> webhook_request \<Rightarrow> (error + acknowledgement) \<times> db" where
  "handlePaymentWebhook sign st req =
     (if \<not> truthy (hdr_idempotency_key req)
      then (Inl (AppError ''Idempotency key required'' 400), st)
      else if \<not> truthy (hdr_signature req) \<or> hdr_signature req \<noteq> Some (sign (body req))
      then (Inl (AppError ''Invalid webhook signature'' 401), st)
      else if missingRequiredFields (body req)
      then (Inl (AppError ''Missing required fields in webhook payload'' 400), st)
      else
        let txn = the (wp_transactionId (body req));
            ids = the (wp_ticketIds (body req));
            amt = the (wp_amount (body req));
            pm = the (wp_paymentMethod (body req));
            ack = \<lparr>ack_code = 200, acknowledged = True, ack_timestamp = wh_now req,
                   ack_transactionId = txn, ack_ticketCount = length ids\<rparr>
        in
          if wp_status (body req) = Some ''success'' then
            let found = findTickets (tickets st) ids in
              if length found \<noteq> length ids
              then (Inl (AppError ''Some tickets not found'' 404), st)
              else if \<exists>t \<in> set found. truthy (transactionId t)
              then (Inl (AppError ''Some tickets already processed'' 409), st)
              else if amt \<noteq> sum_list (map price found)
              then (Inl (AppError ''Payment amount mismatch'' 400), st)
              else
                (case found of
                   [] \<Rightarrow> (Inl TypeError, st)
                 | first # rest \<Rightarrow>
                     let staged =
                           st\<lparr>tickets := confirmTickets (tickets st) (map ticket_id found) txn pm
                                           (wh_now req),
                              events := updateEventSold (events st) (event first) (map tier found)\<rparr>
                     in (Inl ReferenceError, abortTransaction st staged))
          else if wp_status (body req) = Some ''failed'' then
            (Inr ack, st\<lparr>tickets := failTickets (tickets st) ids txn (wh_now req)\<rparr>)
          else (Inr ack, st))"

text \<open>
  The tickets issued for a tier of an event: the count that a capacity bounds.
\<close>

definition issuedFor :: "ticket list \<Rightarrow> objectId \<Rightarrow> string \<Rightarrow> nat" where
  "issuedFor ts e tr = length (filter (\<lambda>t. event t = e \<and> tier t = tr) ts)"

section \<open>Ticket routes (routes/ticketRoutes.js)\<close>

text \<open>
  The routes with transactions and request schemas.  The earlier copy of the
  file has the same purchase, transfer and validate logic without the
  transactions, the batch route and the god-mode bypass.
\<close>

subsection \<open>Strings\<close>

text \<open>The decimal text of \<^verbatim>\<open>Date.now()\<close> inside a template literal.\<close>

definition digit :: "nat \<Rightarrow> char" where
  "digit d = char_of (48 + d)"

fun dec :: "nat \<Rightarrow> string" where
  "dec n = (if n < 10 then [digit n] else dec (n div 10) @ [digit (n mod 10)])"

declare dec.simps [simp del]

text \<open>\<^verbatim>\<open>`ESWATICKET:${eventId}:${userId}:${Date.now()}`\<close>.\<close>

definition scanToken :: "objectId \<Rightarrow> objectId \<Rightarrow> date \<Rightarrow> string" where
  "scanToken e u now = ''ESWATICKET:'' @ e @ '':'' @ u @ '':'' @ dec now"

fun startsWith :: "string \<Rightarrow> string \<Rightarrow> bool" where
  "startsWith [] s = True"
| "startsWith (p # ps) [] = False"
| "startsWith (p # ps) (c # cs) = (p = c \<and> startsWith ps cs)"

text \<open>\<^verbatim>\<open>s.includes(p)\<close>.\<close>

fun includes_str :: "string \<Rightarrow> string \<Rightarrow> bool" where
  "includes_str p [] = startsWith p []"
| "includes_str p (c # cs) = (startsWith p (c # cs) \<or> includes_str p cs)"

text \<open>
  \<^verbatim>\<open>s.split(sep)\<close> for a separator that is not empty: the pieces between the
  occurrences of \<open>sep\<close>, found from the left.
\<close>

function splitFrom :: "string \<Rightarrow> string \<Rightarrow> string \<Rightarrow> string list" where
  "splitFrom sep cur [] = [cur]"
| "splitFrom sep cur (c # cs) =
     (if sep \<noteq> [] \<and> startsWith sep (c # cs)
      then cur # splitFrom sep [] (drop (length sep) (c # cs))
      else splitFrom sep (cur @ [c]) cs)"
  by pat_completeness auto
termination
  by (relation "measure (\<lambda>(sep, cur, s). length s)") auto

definition split_str :: "string \<Rightarrow> string \<Rightarrow> string list" where
  "split_str sep s = splitFrom sep [] s"

subsection \<open>Collaborators\<close>

text \<open>
  \<^verbatim>\<open>QRCode.toDataURL\<close> of the qrcode package and the \<^verbatim>\<open>$regex\<close> operator of
  the store (pattern first, subject second) are parameters of the routes.
\<close>

record collaborators =
  toDataURL :: "string \<Rightarrow> string"
  regexTest :: "string \<Rightarrow> string \<Rightarrow> bool"

subsection \<open>Purchase\<close>

text \<open>\<^verbatim>\<open>{ VIP: 500, 'Early Bird': 300, General: 200 }[tier]\<close>.\<close>

definition tierPrice :: "string \<Rightarrow> int option" where
  "tierPrice tr =
     (if tr = ''VIP'' then Some 500
      else if tr = ''Early Bird'' then Some 300
      else if tr = ''General'' then Some 200
      else None)"

text \<open>
  \<^verbatim>\<open>ticket.save()\<close> of a new document: the unique indexes on \<^verbatim>\<open>_id\<close> and on
  \<^verbatim>\<open>qrData\<close> (index \<^verbatim>\<open>qrData_unique\<close>) reject a duplicate.
\<close>

definition insertTicket :: "ticket list \<Rightarrow> ticket \<Rightarrow> error + ticket list" where
  "insertTicket ts t =
     (if \<exists>s \<in> set ts. ticket_id s = ticket_id t \<or> qrData s = qrData t
      then Inl DuplicateKeyError
      else Inr (ts @ [t]))"

text \<open>
  \<^verbatim>\<open>createSingleTicket(eventId, userId, tier, session)\<close>.  A tier outside the
  price table leaves \<^verbatim>\<open>price\<close> undefined, which the schema (\<^verbatim>\<open>required\<close>)
  rejects on save.  \<open>now\<close> is the reading of the clock and \<open>newId\<close> the
  \<^verbatim>\<open>_id\<close> of the new document.  The data URL of the token is computed and
  handed to the constructor under \<^verbatim>\<open>qrCode\<close>, which is no path of the
  schema: the new document does not hold it.
\<close>

definition createSingleTicket ::
  "collaborators \<Rightarrow> ticket list \<Rightarrow> objectId \<Rightarrow> objectId \<Rightarrow> string \<Rightarrow> date \<Rightarrow> objectId
     \<Rightarrow> error + ticket \<times> ticket list" where
  "createSingleTicket env ts eventId userId tr now newId =
     (case tierPrice tr of
        None \<Rightarrow> Inl (Error ''Ticket validation failed'')
      | Some p \<Rightarrow>
          let dataUrl = toDataURL env (scanToken eventId userId now);
              t = \<lparr>ticket_id = newId, event = eventId, owner = userId,
                   qrData = scanToken eventId userId now,
                   qrCode = None,
                   isUsed = False, price = p, tier = tr,
                   transferHistory = [\<lparr>tr_from = userId, tr_to = userId, tr_date = now\<rparr>],
                   validationHistory = [], status = ACTIVE, refundHistory = [],
                   updatedAt = now\<rparr>
          in (case insertTicket ts t of
                Inl e \<Rightarrow> Inl e
              | Inr ts' \<Rightarrow> Inr (t, ts')))"

text \<open>\<^verbatim>\<open>Event.findById\<close>.\<close>

definition findEvent :: "event_doc list \<Rightarrow> objectId \<Rightarrow> event_doc option" where
  "findEvent es i = find (\<lambda>e. event_id e = i) es"

record batch_item =
  item_tier :: string
  item_quantity :: nat

record purchase_request =
  pr_user :: objectId
  pr_eventId :: objectId
  pr_tier :: string
  pr_quantity :: nat
  pr_now :: date
  pr_newId :: objectId

text \<open>
  What \<^verbatim>\<open>POST /purchase\<close> ends with: the 201 response with the ticket, or the
  hand-over \<^verbatim>\<open>next('route')\<close> with the request body rewritten as a batch.
\<close>

datatype purchase_result =
    Created ticket
  | PassedOn objectId "batch_item list"

text \<open>\<^verbatim>\<open>router.post('/purchase', ...)\<close>.\<close>

definition purchase ::
  "collaborators \<Rightarrow> db \<Rightarrow> purchase_request \<Rightarrow> (error + purchase_result) \<times> db" where
  "purchase env st rq =
     (if pr_quantity rq > 1
      then (Inr (PassedOn (pr_eventId rq)
                   [\<lparr>item_tier = pr_tier rq, item_quantity = pr_quantity rq\<rparr>]), st)
      else
        (case findEvent (events st) (pr_eventId rq) of
           None \<Rightarrow> (Inl (AppError ''Event not found'' 404), st)
         | Some ev \<Rightarrow>
             (case createSingleTicket env (tickets st) (event_id ev) (pr_user rq) (pr_tier rq)
                     (pr_now rq) (pr_newId rq) of
                Inl e \<Rightarrow> (Inl e, st)
              | Inr (t, ts') \<Rightarrow> (Inr (Created t), st\<lparr>tickets := ts'\<rparr>))))"

subsection \<open>Batch purchase\<close>

record batch_request =
  br_user :: objectId
  br_eventId :: objectId
  br_items :: "batch_item list"
  br_clock :: "nat \<Rightarrow> date"
  br_newIds :: "nat \<Rightarrow> objectId"

text \<open>
  The two nested loops of the route create one ticket per unit of quantity, in
  the order of the items: \<open>tiersOf\<close> lists the tiers in that order, and
  \<open>createTickets\<close> creates them one after the other; the \<open>k\<close>-th call reads the
  clock \<open>br_clock k\<close> and gets the \<^verbatim>\<open>_id\<close> \<open>br_newIds k\<close>.  The first error
  ends the loop.
\<close>

definition tiersOf :: "batch_item list \<Rightarrow> string list" where
  "tiersOf items = concat (map (\<lambda>it. replicate (item_quantity it) (item_tier it)) items)"

fun createTickets ::
  "collaborators \<Rightarrow> objectId \<Rightarrow> objectId \<Rightarrow> (nat \<Rightarrow> date) \<Rightarrow> (nat \<Rightarrow> objectId) \<Rightarrow> nat
     \<Rightarrow> string list \<Rightarrow> ticket list \<Rightarrow> ticket list \<Rightarrow> error + ticket list \<times> ticket list" where
  "createTickets env eventId userId clock ids k [] created ts = Inr (created, ts)"
| "createTickets env eventId userId clock ids k (tr # trs) created ts =
     (case createSingleTicket env ts eventId userId tr (clock k) (ids k) of
        Inl e \<Rightarrow> Inl e
      | Inr (t, ts') \<Rightarrow>
          createTickets env eventId userId clock ids (Suc k) trs (created @ [t]) ts')"

text \<open>
  \<^verbatim>\<open>router.post('/batch-purchase', ...)\<close>: one transaction; an error aborts it
  and the store is the one before the request.
\<close>

definition batchPurchase ::
  "collaborators \<Rightarrow> db \<Rightarrow> batch_request \<Rightarrow> (error + nat \<times> ticket list) \<times> db" where
  "batchPurchase env st rq =
     (case findEvent (events st) (br_eventId rq) of
        None \<Rightarrow> (Inl (AppError ''Event not found'' 404), st)
      | Some ev \<Rightarrow>
          (case createTickets env (event_id ev) (br_user rq) (br_clock rq) (br_newIds rq) 0
                  (tiersOf (br_items rq)) [] (tickets st) of
             Inl e \<Rightarrow> (Inl e, st)
           | Inr (created, ts') \<Rightarrow> (Inr (length created, created), st\<lparr>tickets := ts'\<rparr>)))"

subsection \<open>Transfer\<close>

record transfer_request =
  tf_ticketId :: objectId
  tf_user :: objectId
  tf_email :: string
  tf_now :: date

text \<open>
  \<^verbatim>\<open>validateTicketOwnership(ticket, userId, logger)\<close> of the routes with
  transactions: the error it throws, if any.  After the test for a missing
  ticket the helper reads \<^verbatim>\<open>req.isGodMode\<close>, and \<^verbatim>\<open>req\<close> is neither a
  parameter of the helper nor bound in the module: for every ticket that was
  found the helper throws a ReferenceError, and its ownership test is never
  reached.
\<close>

definition validateTicketOwnership :: "ticket option \<Rightarrow> objectId \<Rightarrow> error option" where
  "validateTicketOwnership found userId =
     (case found of
        None \<Rightarrow> Some (AppError ''Ticket not found'' 404)
      | Some t \<Rightarrow> Some ReferenceError)"

text \<open>
  The helper of the earlier copy of the routes, which has no bypass line.
\<close>

definition validateTicketOwnership_earlier :: "ticket option \<Rightarrow> objectId \<Rightarrow> error option" where
  "validateTicketOwnership_earlier found userId =
     (case found of
        None \<Rightarrow> Some (AppError ''Ticket not found'' 404)
      | Some t \<Rightarrow>
          if owner t \<noteq> userId then Some (AppError ''You do not own this ticket'' 403)
          else None)"

text \<open>\<^verbatim>\<open>User.findOne({ email })\<close> and \<^verbatim>\<open>User.findById\<close>.\<close>

definition findUserByEmail :: "user_doc list \<Rightarrow> string \<Rightarrow> user_doc option" where
  "findUserByEmail us e = find (\<lambda>u. email u = e) us"

definition findUser :: "user_doc list \<Rightarrow> objectId \<Rightarrow> user_doc option" where
  "findUser us i = find (\<lambda>u. user_id u = i) us"

text \<open>
  The schema declares \<^verbatim>\<open>qrData\<close> with \<^verbatim>\<open>immutable: true\<close>: an assignment
  to the path of a document that is not new is ignored.
\<close>

definition qrData_immutable :: bool where
  "qrData_immutable = True"

definition assign_qrData :: "ticket \<Rightarrow> string \<Rightarrow> ticket" where
  "assign_qrData t v = (if qrData_immutable then t else t\<lparr>qrData := v\<rparr>)"

text \<open>
  The assignments of both copies of the transfer route to the loaded ticket:
  the history entry, the owner, \<^verbatim>\<open>qrData\<close> (ignored, the path is immutable)
  and \<^verbatim>\<open>qrCode\<close> (no path of the schema, so \<^verbatim>\<open>save\<close> does not store it).
  Neither copy assigns \<^verbatim>\<open>status\<close>.
\<close>

definition transferAssignments ::
  "ticket \<Rightarrow> objectId \<Rightarrow> objectId \<Rightarrow> string \<Rightarrow> date \<Rightarrow> ticket" where
  "transferAssignments t userId recipientId newQrData now =
     (let t1 = t\<lparr>transferHistory := transferHistory t @
                  [\<lparr>tr_from = userId, tr_to = recipientId, tr_date = now\<rparr>]\<rparr>;
          t2 = t1\<lparr>owner := recipientId\<rparr>
      in assign_qrData t2 newQrData)"

text \<open>The body \<^verbatim>\<open>{ success: true, message, newQRCode, ticketId }\<close>.\<close>

record transfer_body =
  message :: string
  newQRCode :: string
  ticketId :: objectId

text \<open>
  \<^verbatim>\<open>router.post('/transfer/:ticketId', ...)\<close> of the routes with transactions.
  The route reads neither \<^verbatim>\<open>isUsed\<close> nor \<^verbatim>\<open>status\<close> and does not call
  the model method \<^verbatim>\<open>transferTicket\<close>.  Since the helper throws for every
  ticket that was found, the steps after it are never reached.
\<close>

definition transfer ::
  "collaborators \<Rightarrow> db \<Rightarrow> transfer_request \<Rightarrow> (error + transfer_body) \<times> db" where
  "transfer env st rq =
     (let found = findById (tickets st) (tf_ticketId rq) in
      case validateTicketOwnership found (tf_user rq) of
        Some e \<Rightarrow> (Inl e, st)
      | None \<Rightarrow>
          (case found of
             None \<Rightarrow> (Inl TypeError, st)
           | Some t \<Rightarrow>
               (case findUserByEmail (users st) (tf_email rq) of
                  None \<Rightarrow> (Inl (AppError ''Recipient not found'' 404), st)
                | Some recipient \<Rightarrow>
                    let newQrData = scanToken (event t) (user_id recipient) (tf_now rq);
                        newQrCode = toDataURL env newQrData;
                        t' = transferAssignments t (tf_user rq) (user_id recipient) newQrData
                               (tf_now rq)
                    in (Inr \<lparr>message = ''Ticket transferred to '' @ email recipient,
                              newQRCode = newQrCode, ticketId = ticket_id t'\<rparr>,
                        st\<lparr>tickets := save (tickets st) t' (tf_now rq)\<rparr>))))"

text \<open>
  The transfer route of the earlier copy of the routes (no transaction, no
  request schema, no bypass): the email is required first, then the ticket is
  loaded and its ownership checked with the earlier helper, then the same
  assignments and \<^verbatim>\<open>save\<close>.  Its body is
  \<^verbatim>\<open>{ success: true, message, newQRCode }\<close>, here the message and the code.
\<close>

definition transfer_earlier ::
  "collaborators \<Rightarrow> db \<Rightarrow> transfer_request \<Rightarrow> (error + string \<times> string) \<times> db" where
  "transfer_earlier env st rq =
     (if tf_email rq = [] then (Inl (AppError ''Recipient email is required'' 400), st)
      else
        let found = findById (tickets st) (tf_ticketId rq) in
        case validateTicketOwnership_earlier found (tf_user rq) of
          Some e \<Rightarrow> (Inl e, st)
        | None \<Rightarrow>
            (case found of
               None \<Rightarrow> (Inl TypeError, st)
             | Some t \<Rightarrow>
                 (case findUserByEmail (users st) (tf_email rq) of
                    None \<Rightarrow> (Inl (AppError ''Recipient not found'' 404), st)
                  | Some recipient \<Rightarrow>
                      let newQrData = scanToken (event t) (user_id recipient) (tf_now rq);
                          newQrCode = toDataURL env newQrData;
                          t' = transferAssignments t (tf_user rq) (user_id recipient) newQrData
                                 (tf_now rq)
                      in (Inr (''Ticket transferred to '' @ email recipient, newQrCode),
                          st\<lparr>tickets := save (tickets st) t' (tf_now rq)\<rparr>))))"

text \<open>
  \<^verbatim>\<open>TicketSchema.methods.transferTicket(newOwnerId, currentUserId)\<close> of
  models/Ticket.js: the document it saves, or the error it throws.
\<close>

definition transferTicket :: "ticket \<Rightarrow> objectId \<Rightarrow> objectId \<Rightarrow> date \<Rightarrow> error + ticket" where
  "transferTicket t newOwnerId currentUserId now =
     (if owner t \<noteq> currentUserId then Inl (Error ''You do not own this ticket'')
      else if isUsed t then Inl (Error ''Cannot transfer used ticket'')
      else Inr (t\<lparr>transferHistory := transferHistory t @
                    [\<lparr>tr_from = owner t, tr_to = newOwnerId, tr_date = now\<rparr>],
                  owner := newOwnerId, status := TRANSFERRED\<rparr>))"

subsection \<open>Validate\<close>

record validate_request =
  vr_user :: objectId
  vr_qrData :: string
  vr_location :: "string option"
  vr_now :: date

text \<open>
  The scan payload.  When the scanned text includes \<^verbatim>\<open>ESWATICKET\<close>, the piece
  after the first \<^verbatim>\<open>ESWATICKET:\<close> is taken if there is one and it is not
  empty; otherwise the text itself.  In the other branch the pattern
  \<^verbatim>\<open>/ESWATICKET:[^"]+/\<close> cannot match a text without \<^verbatim>\<open>ESWATICKET\<close>, so
  the route throws.
\<close>

definition qrPayload :: "string \<Rightarrow> error + string" where
  "qrPayload q =
     (if includes_str ''ESWATICKET'' q then
        (case split_str ''ESWATICKET:'' q of
           a # b # rest \<Rightarrow> if b \<noteq> [] then Inr (''ESWATICKET:'' @ b) else Inr q
         | _ \<Rightarrow> Inr q)
      else Inl (AppError ''Invalid QR code format'' 400))"

text \<open>
  \<^verbatim>\<open>Ticket.findOne({ $or: [{ qrData: qrPayload }, { qrCode: { $regex: qrPayload } }] })\<close>.
\<close>

definition findByScan :: "collaborators \<Rightarrow> ticket list \<Rightarrow> string \<Rightarrow> ticket option" where
  "findByScan env ts payload =
     find (\<lambda>t. qrData t = payload \<or>
               (case qrCode t of None \<Rightarrow> False | Some c \<Rightarrow> regexTest env payload c)) ts"

text \<open>\<^verbatim>\<open>req.body.location || 'Unknown'\<close>.\<close>

definition locationOr :: "string option \<Rightarrow> string" where
  "locationOr l = (if truthy l then the l else ''Unknown'')"

text \<open>The body \<^verbatim>\<open>{ valid: true, event, attendee, validatedAt }\<close>.\<close>

record validate_body =
  valid :: bool
  vb_event_id :: objectId
  vb_event_name :: string
  vb_attendee_email :: string
  validatedAt :: date

text \<open>
  \<^verbatim>\<open>router.post('/validate', ...)\<close>.  The route sets \<^verbatim>\<open>isUsed\<close> and pushes
  one validation entry; it does not assign \<^verbatim>\<open>status\<close>.  After the commit it
  reads the populated event and owner: a reference that resolves to nothing is
  a TypeError, the \<^verbatim>\<open>catch\<close> block then calls \<^verbatim>\<open>abortTransaction\<close> on the
  committed transaction, which throws again, and the request is never answered
  although the validation is stored.
\<close>

definition validate ::
  "collaborators \<Rightarrow> db \<Rightarrow> validate_request \<Rightarrow> (error + validate_body) \<times> db" where
  "validate env st rq =
     (case qrPayload (vr_qrData rq) of
        Inl e \<Rightarrow> (Inl e, st)
      | Inr payload \<Rightarrow>
          (case findByScan env (tickets st) payload of
             None \<Rightarrow> (Inl (AppError ''Ticket not found'' 404), st)
           | Some t \<Rightarrow>
               if isUsed t then (Inl (AppError ''Ticket already used'' 400), st)
               else
                 let t' = t\<lparr>isUsed := True,
                            validationHistory := validationHistory t @
                              [\<lparr>timestamp = vr_now rq, validatedBy = vr_user rq,
                                location = locationOr (vr_location rq)\<rparr>]\<rparr>;
                     st' = st\<lparr>tickets := save (tickets st) t' (vr_now rq)\<rparr>
                 in (case findEvent (events st) (event t) of
                       None \<Rightarrow> (Inl UnhandledRejection, st')
                     | Some ev \<Rightarrow>
                         (case findUser (users st) (owner t) of
                            None \<Rightarrow> (Inl UnhandledRejection, st')
                          | Some u \<Rightarrow>
                              (Inr \<lparr>valid = True, vb_event_id = event_id ev,
                                     vb_event_name = event_name ev,
                                     vb_attendee_email = email u,
                                     validatedAt = vr_now rq\<rparr>, st')))))"

text \<open>A sequence of refund requests, served one after the other.\<close>

fun runRefunds :: "db \<Rightarrow> refund_request list \<Rightarrow> (error + nat \<times> refund_body) list \<times> db" where
  "runRefunds st [] = ([], st)"
| "runRefunds st (rq # rqs) =
     (let (r, st') = processRefund st rq;
          (rs, st'') = runRefunds st' rqs
      in (r # rs, st''))"

section \<open>Example documents\<close>

definition eventA :: objectId where
  "eventA = ''64e000000000000000000001''"

definition eventB :: objectId where
  "eventB = ''64e000000000000000000002''"

definition alice :: objectId where
  "alice = ''64a000000000000000000001''"

definition bob :: objectId where
  "bob = ''64b000000000000000000002''"

definition staff :: objectId where
  "staff = ''64c000000000000000000003''"

definition ticketA_id :: objectId where
  "ticketA_id = ''64f000000000000000000001''"

definition ticketB_id :: objectId where
  "ticketB_id = ''64f000000000000000000002''"

definition ticketC_id :: objectId where
  "ticketC_id = ''64f000000000000000000003''"

definition refundA_id :: objectId where
  "refundA_id = ''64d000000000000000000001''"

text \<open>The General ticket that alice bought for event A at time 1000.\<close>

definition ticketA :: ticket where
  "ticketA =
     \<lparr>ticket_id = ticketA_id, event = eventA, owner = alice,
      qrData = ''ESWATICKET:64e000000000000000000001:64a000000000000000000001:1000'',
      qrCode = None,
      isUsed = False, price = 200, tier = ''General'',
      transferHistory = [\<lparr>tr_from = alice, tr_to = alice, tr_date = 1000\<rparr>],
      validationHistory = [], status = ACTIVE, refundHistory = [],
      updatedAt = 1000\<rparr>"

text \<open>Event A has one General tier of capacity 1, which ticket A uses up.\<close>

definition generalTier :: ticketType where
  "generalTier = \<lparr>name = ''General'', tier_price = 200, capacity = 1, available = Some 0\<rparr>"

definition eventA_doc :: event_doc where
  "eventA_doc = \<lparr>event_id = eventA, event_name = ''Bushfire'', ticketTypes = [generalTier]\<rparr>"

definition alice_doc :: user_doc where
  "alice_doc = \<lparr>user_id = alice, email = ''alice@example.sz''\<rparr>"

definition bob_doc :: user_doc where
  "bob_doc = \<lparr>user_id = bob, email = ''bob@example.sz''\<rparr>"

definition db0 :: db where
  "db0 = \<lparr>tickets = [ticketA], events = [eventA_doc], users = [alice_doc, bob_doc]\<rparr>"

text \<open>Alice's refund request for her ticket, and the same request sent by bob.\<close>

definition refundByAlice :: refund_request where
  "refundByAlice =
     \<lparr>rq_ticketId = ticketA_id, rq_user = alice, rq_reason = ''cannot attend'',
      rq_idempotencyKey = ''key-1'', rq_now = 5000, rq_newId = refundA_id\<rparr>"

definition refundByBob :: refund_request where
  "refundByBob = refundByAlice\<lparr>rq_user := bob, rq_now := 6000\<rparr>"

text \<open>The ticket and the store after alice's refund.\<close>

definition ticketA_refunded :: ticket where
  "ticketA_refunded =
     ticketA\<lparr>status := REFUNDED,
             refundHistory :=
               [\<lparr>refund_id = refundA_id, idempotencyKey = ''key-1'', processedAt = 5000,
                 processedBy = alice, amount = 200, reason = ''cannot attend'',
                 refund_state = COMPLETED\<rparr>],
             updatedAt := 5000\<rparr>"

definition db_refunded :: db where
  "db_refunded = db0\<lparr>tickets := [ticketA_refunded]\<rparr>"

text \<open>
  The deliveries of the webhook examples: the success delivery of transaction
  \<^verbatim>\<open>txn_123\<close> for ticket A with the amount of its price, and the failed
  delivery of the same transaction with its acknowledgement and the store after
  it.
\<close>

definition exampleHmac :: "webhook_payload \<Rightarrow> string" where
  "exampleHmac b = (case wp_transactionId b of None \<Rightarrow> ''9f86d081'' | Some t \<Rightarrow> ''5e88'' @ t)"

definition payloadA :: webhook_payload where
  "payloadA =
     \<lparr>wp_transactionId = Some ''txn_123'', wp_status = Some ''success'',
      wp_ticketIds = Some [ticketA_id], wp_amount = Some 200,
      wp_currency = Some ''SZL'', wp_paymentMethod = Some ''momo''\<rparr>"

definition deliveryA :: webhook_request where
  "deliveryA =
     \<lparr>hdr_idempotency_key = Some ''idem-1'', hdr_signature = Some (exampleHmac payloadA),
      body = payloadA, wh_now = 7000\<rparr>"

definition payloadFailed :: webhook_payload where
  "payloadFailed = payloadA\<lparr>wp_status := Some ''failed''\<rparr>"

definition deliveryFailed :: webhook_request where
  "deliveryFailed =
     \<lparr>hdr_idempotency_key = Some ''idem-4'', hdr_signature = Some (exampleHmac payloadFailed),
      body = payloadFailed, wh_now = 7000\<rparr>"

definition ackFailed :: acknowledgement where
  "ackFailed = \<lparr>ack_code = 200, acknowledged = True, ack_timestamp = 7000,
                ack_transactionId = ''txn_123'', ack_ticketCount = 1\<rparr>"

definition db_failed :: db where
  "db_failed = db0\<lparr>tickets := [ticketA\<lparr>updatedAt := 7000\<rparr>]\<rparr>"

text \<open>The same delivery with a forged signature, with and without the key.\<close>

definition deliveryForged :: webhook_request where
  "deliveryForged = deliveryA\<lparr>hdr_signature := Some ''forged''\<rparr>"

definition deliveryForgedNoKey :: webhook_request where
  "deliveryForgedNoKey = deliveryForged\<lparr>hdr_idempotency_key := None\<rparr>"

text \<open>
  A store with two General tickets of event A, whose tiers are General and
  VIP, and a second event; the success delivery that names both tickets.
\<close>

definition ticketB :: ticket where
  "ticketB =
     ticketA\<lparr>ticket_id := ticketB_id,
             qrData := ''ESWATICKET:64e000000000000000000001:64a000000000000000000001:1001'',
             transferHistory := [\<lparr>tr_from = alice, tr_to = alice, tr_date = 1001\<rparr>],
             updatedAt := 1001\<rparr>"

definition eventA_open :: event_doc where
  "eventA_open =
     \<lparr>event_id = eventA, event_name = ''Bushfire'',
      ticketTypes = [\<lparr>name = ''General'', tier_price = 200, capacity = 100, available = None\<rparr>,
                     \<lparr>name = ''VIP'', tier_price = 500, capacity = 10, available = None\<rparr>]\<rparr>"

definition eventB_doc :: event_doc where
  "eventB_doc =
     \<lparr>event_id = eventB, event_name = ''Umhlanga'',
      ticketTypes = [\<lparr>name = ''General'', tier_price = 200, capacity = 50, available = None\<rparr>]\<rparr>"

definition db_two :: db where
  "db_two = \<lparr>tickets = [ticketA, ticketB], events = [eventA_open, eventB_doc],
             users = [alice_doc, bob_doc]\<rparr>"

definition deliveryTwo :: webhook_request where
  "deliveryTwo =
     (let b = payloadA\<lparr>wp_transactionId := Some ''txn_789'',
                       wp_ticketIds := Some [ticketA_id, ticketB_id],
                       wp_amount := Some 400\<rparr>
      in \<lparr>hdr_idempotency_key = Some ''idem-3'', hdr_signature = Some (exampleHmac b),
          body = b, wh_now = 9000\<rparr>)"

text \<open>Example collaborators, and bob's purchase of one General ticket for event A.\<close>

definition env0 :: collaborators where
  "env0 = \<lparr>toDataURL = (\<lambda>s. ''data:image/png;base64,iVBORw0KGgo=''),
           regexTest = (\<lambda>p s. includes_str p s)\<rparr>"

definition purchaseByBob :: purchase_request where
  "purchaseByBob =
     \<lparr>pr_user = bob, pr_eventId = eventA, pr_tier = ''General'', pr_quantity = 1,
      pr_now = 2000, pr_newId = ticketB_id\<rparr>"

definition ticketBob :: ticket where
  "ticketBob =
     \<lparr>ticket_id = ticketB_id, event = eventA, owner = bob,
      qrData = ''ESWATICKET:64e000000000000000000001:64b000000000000000000002:2000'',
      qrCode = None,
      isUsed = False, price = 200, tier = ''General'',
      transferHistory = [\<lparr>tr_from = bob, tr_to = bob, tr_date = 2000\<rparr>],
      validationHistory = [], status = ACTIVE, refundHistory = [],
      updatedAt = 2000\<rparr>"

text \<open>Bob's batch purchase of two General tickets for event A.\<close>

definition batchByBob :: batch_request where
  "batchByBob =
     \<lparr>br_user = bob, br_eventId = eventA,
      br_items = [\<lparr>item_tier = ''General'', item_quantity = 2\<rparr>],
      br_clock = (\<lambda>k. 2000 + k),
      br_newIds = (\<lambda>k. if k = 0 then ticketB_id else ticketC_id)\<rparr>"

text \<open>
  The scan of ticket A's token at the gate, the ticket and the store after it,
  and alice's transfer of the ticket to bob with the ticket and the store that
  the earlier copy of the route leaves.
\<close>

definition scanA :: validate_request where
  "scanA =
     \<lparr>vr_user = staff,
      vr_qrData = ''ESWATICKET:64e000000000000000000001:64a000000000000000000001:1000'',
      vr_location = Some ''Gate 1'', vr_now = 3000\<rparr>"

definition ticketA_used :: ticket where
  "ticketA_used =
     ticketA\<lparr>isUsed := True,
             validationHistory :=
               [\<lparr>timestamp = 3000, validatedBy = staff, location = ''Gate 1''\<rparr>],
             updatedAt := 3000\<rparr>"

definition db_used :: db where
  "db_used = db0\<lparr>tickets := [ticketA_used]\<rparr>"

definition transferToBob :: transfer_request where
  "transferToBob =
     \<lparr>tf_ticketId = ticketA_id, tf_user = alice, tf_email = ''bob@example.sz'', tf_now = 2000\<rparr>"

definition ticketA_transferred :: ticket where
  "ticketA_transferred =
     ticketA\<lparr>owner := bob,
             transferHistory :=
               [\<lparr>tr_from = alice, tr_to = alice, tr_date = 1000\<rparr>,
                \<lparr>tr_from = alice, tr_to = bob, tr_date = 2000\<rparr>],
             updatedAt := 2000\<rparr>"

definition db_transferred :: db where
  "db_transferred = db0\<lparr>tickets := [ticketA_transferred]\<rparr>"

section \<open>Refund: idempotent replay\<close>

lemma find_conj_first:
  "find P xs = Some x \<Longrightarrow> Q x \<Longrightarrow> find (\<lambda>y. P y \<and> Q y) xs = Some x"
  by (induction xs) (auto split: if_splits)

lemma processRefund_existing:
  assumes "findById (tickets st) (rq_ticketId rq) = Some t"
    and "findRefund (refundHistory t) (rq_idempotencyKey rq) = Some r"
  shows "processRefund st rq = (Inr (200, Deduplicated (refund_state r) (processedAt r)), st)"
proof -
  have "findExistingRefund (tickets st) (rq_ticketId rq) (rq_idempotencyKey rq) = Some t"
    using assms unfolding findExistingRefund_def findById_def
    by (intro find_conj_first) auto
  then show ?thesis
    using assms(2) by (simp add: processRefund_def)
qed

lemma findById_save:
  "findById ts i = Some t \<Longrightarrow> ticket_id t' = i \<Longrightarrow>
   findById (save ts t' now) i = Some (t'\<lparr>updatedAt := now\<rparr>)"
  unfolding findById_def save_def
  by (induction ts) (auto split: if_splits)

lemma findRefund_append_new:
  "findRefund rs k = None \<Longrightarrow> idempotencyKey r = k \<Longrightarrow> findRefund (rs @ [r]) k = Some r"
  unfolding findRefund_def by (induction rs) (auto split: if_splits)

lemma findExistingRefund_None_findById:
  "findExistingRefund ts i k = None \<Longrightarrow> findById ts i = Some t \<Longrightarrow>
   findRefund (refundHistory t) k = None"
  unfolding findExistingRefund_def findById_def
  by (auto simp: find_None_iff find_Some_iff)

lemma processRefund_replay_once:
  assumes first: "processRefund st rq = (Inr (code, Completed a c i p), st')"
    and same: "rq_ticketId rq' = rq_ticketId rq" "rq_idempotencyKey rq' = rq_idempotencyKey rq"
  shows "processRefund st' rq' = (Inr (200, Deduplicated COMPLETED p), st')"
proof -
  let ?k = "rq_idempotencyKey rq"
  from first obtain t t' where
    none: "findExistingRefund (tickets st) (rq_ticketId rq) ?k = None"
    and t: "findById (tickets st) (rq_ticketId rq) = Some t"
    and t': "Ticket_processRefund t (rq_reason rq) (rq_user rq) ?k (rq_now rq) (rq_newId rq) = Inr t'"
    and st': "st' = st\<lparr>tickets := save (tickets st) t' (rq_now rq)\<rparr>"
    by (auto simp: processRefund_def split: option.splits if_splits sum.splits)
  have old: "findRefund (refundHistory t) ?k = None"
    using none t by (rule findExistingRefund_None_findById)
  have idt: "ticket_id t = rq_ticketId rq"
    using t unfolding findById_def by (auto simp: find_Some_iff)
  define r where "r = \<lparr>refund_id = rq_newId rq, idempotencyKey = ?k, processedAt = rq_now rq,
                      processedBy = rq_user rq, amount = price t, reason = rq_reason rq,
                      refund_state = COMPLETED\<rparr>"
  have t'eq: "t' = t\<lparr>status := REFUNDED, refundHistory := refundHistory t @ [r]\<rparr>"
    using t' unfolding Ticket_processRefund_def r_def by (auto split: if_splits)
  have fr: "findRefund (refundHistory t') ?k = Some r"
    using old unfolding t'eq by (simp add: findRefund_append_new r_def)
  have p: "p = rq_now rq"
    using first none t t' fr by (simp add: processRefund_def r_def split: if_splits)
  have "findById (tickets st') (rq_ticketId rq') = Some (t'\<lparr>updatedAt := rq_now rq\<rparr>)"
    unfolding st' using t idt same by (simp add: findById_save t'eq)
  moreover have "findRefund (refundHistory (t'\<lparr>updatedAt := rq_now rq\<rparr>)) (rq_idempotencyKey rq') = Some r"
    using fr same by simp
  ultimately have "processRefund st' rq' = (Inr (200, Deduplicated (refund_state r) (processedAt r)), st')"
    by (rule processRefund_existing)
  then show ?thesis by (simp add: r_def p)
qed

lemma runRefunds_replay:
  assumes "\<And>rq'. rq' \<in> set rqs \<Longrightarrow> processRefund st' rq' = (r, st')"
  shows "runRefunds st' rqs = (replicate (length rqs) r, st')"
  using assms by (induction rqs) auto

lemma processRefund_db0:
  "processRefund db0 refundByAlice = (Inr (200, Completed 200 ''SZL'' refundA_id 5000), db_refunded)"
  by (simp add: processRefund_def findExistingRefund_def findRefund_def findById_def
      Ticket_processRefund_def save_def db0_def db_refunded_def ticketA_refunded_def
      ticketA_def refundByAlice_def)

text \<open>
  C10.  In \<^verbatim>\<open>processRefund\<close> the idempotency lookup comes before the existence
  and ownership checks: whenever the ticket of the request has a refund-history
  entry with the request's idempotency key, the controller answers 200 with the
  stored refund (its status and its time) and leaves the store as it is,
  whoever the authenticated requester is; the owner of the ticket is not read.
\<close>

theorem refund_lookup_precedes_ownership:
  assumes "findById (tickets st) (rq_ticketId rq) = Some t"
    and "findRefund (refundHistory t) (rq_idempotencyKey rq) = Some r"
  shows "processRefund st rq = (Inr (200, Deduplicated (refund_state r) (processedAt r)), st)"
  using assms by (rule processRefund_existing)

theorem refund_lookup_precedes_ownership_witness:
  "owner ticketA_refunded \<noteq> rq_user refundByBob \<and>
   findById (tickets db_refunded) (rq_ticketId refundByBob) = Some ticketA_refunded \<and>
   processRefund db_refunded refundByBob = (Inr (200, Deduplicated COMPLETED 5000), db_refunded)"
proof -
  let ?r = "\<lparr>refund_id = refundA_id, idempotencyKey = ''key-1'', processedAt = 5000,
             processedBy = alice, amount = 200, reason = ''cannot attend'',
             refund_state = COMPLETED\<rparr>"
  have a: "findById (tickets db_refunded) (rq_ticketId refundByBob) = Some ticketA_refunded"
    by (simp add: findById_def db_refunded_def ticketA_refunded_def ticketA_def
        refundByBob_def refundByAlice_def)
  have b: "findRefund (refundHistory ticketA_refunded) (rq_idempotencyKey refundByBob) = Some ?r"
    by (simp add: findRefund_def ticketA_refunded_def refundByBob_def refundByAlice_def)
  have c: "owner ticketA_refunded \<noteq> rq_user refundByBob"
    by (simp add: ticketA_refunded_def ticketA_def refundByBob_def alice_def bob_def)
  show ?thesis
    using refund_lookup_precedes_ownership [OF a b] a c by simp
qed

text \<open>
  C6, as the claim states it, fails: the first response to alice's refund is the
  \<^verbatim>\<open>completed\<close> body (amount, currency, refund id, time), and the response
  to the same request sent again is the \<^verbatim>\<open>deduplicated\<close> body, which is a
  different payload.
\<close>

theorem refund_replay_not_identical:
  "fst (processRefund db0 refundByAlice) = Inr (200, Completed 200 ''SZL'' refundA_id 5000) \<and>
   fst (processRefund (snd (processRefund db0 refundByAlice)) refundByAlice)
     = Inr (200, Deduplicated COMPLETED 5000) \<and>
   fst (processRefund (snd (processRefund db0 refundByAlice)) refundByAlice)
     \<noteq> fst (processRefund db0 refundByAlice)"
proof -
  have "processRefund db_refunded refundByAlice = (Inr (200, Deduplicated COMPLETED 5000), db_refunded)"
    using processRefund_replay_once [OF processRefund_db0, of refundByAlice] by simp
  then show ?thesis by (simp add: processRefund_db0)
qed

text \<open>
  C6, amended.  Once a refund with a (ticket, idempotency key) pair has
  completed, every later refund request with the same pair, from any requester,
  is answered 200 with the body \<^verbatim>\<open>deduplicated\<close> that carries the status
  COMPLETED and the time of the first response; all these later responses are
  the same, and the store is left as it is, so that no second refund-history
  entry is appended.
\<close>

theorem refund_replay_deduplicated:
  assumes "processRefund st rq = (Inr (code, Completed a c i p), st')"
    and "\<forall>rq' \<in> set rqs. rq_ticketId rq' = rq_ticketId rq \<and>
           rq_idempotencyKey rq' = rq_idempotencyKey rq"
  shows "runRefunds st' rqs = (replicate (length rqs) (Inr (200, Deduplicated COMPLETED p)), st')"
proof (rule runRefunds_replay)
  fix rq' assume "rq' \<in> set rqs"
  with assms(2) have "rq_ticketId rq' = rq_ticketId rq" "rq_idempotencyKey rq' = rq_idempotencyKey rq"
    by auto
  with assms(1) show "processRefund st' rq' = (Inr (200, Deduplicated COMPLETED p), st')"
    by (rule processRefund_replay_once)
qed

theorem refund_replay_deduplicated_witness:
  "processRefund db0 refundByAlice = (Inr (200, Completed 200 ''SZL'' refundA_id 5000), db_refunded) \<and>
   runRefunds db_refunded [refundByAlice, refundByBob] =
     ([Inr (200, Deduplicated COMPLETED 5000), Inr (200, Deduplicated COMPLETED 5000)], db_refunded) \<and>
   map refundHistory (tickets db_refunded) = [refundHistory ticketA_refunded] \<and>
   length (refundHistory ticketA_refunded) = 1"
proof -
  have "\<forall>rq' \<in> set [refundByAlice, refundByBob].
          rq_ticketId rq' = rq_ticketId refundByAlice \<and>
          rq_idempotencyKey rq' = rq_idempotencyKey refundByAlice"
    by (simp add: refundByBob_def)
  from refund_replay_deduplicated [OF processRefund_db0 this]
  show ?thesis
    by (simp add: processRefund_db0 db_refunded_def ticketA_refunded_def numeral_2_eq_2)
qed


section \<open>Payment webhook: gates and effects\<close>

lemma webhook_success_aborts:
  assumes "wp_status (body req) = Some ''success''"
  shows "\<exists>e. handlePaymentWebhook sign st req = (Inl e, st)"
  using assms
  by (auto simp: handlePaymentWebhook_def Let_def abortTransaction_def split: list.splits)

lemma webhook_events_unchanged:
  "events (snd (handlePaymentWebhook sign st req)) = events st"
  by (auto simp: handlePaymentWebhook_def Let_def abortTransaction_def split: list.splits)


lemma webhook_redelivery:
  assumes "handlePaymentWebhook sign st req = (Inr ack, st')"
    and "body req' = body req"
    and "hdr_signature req' = hdr_signature req"
    and "truthy (hdr_idempotency_key req')"
  shows "handlePaymentWebhook sign st' req' =
           (Inr (ack\<lparr>ack_timestamp := wh_now req'\<rparr>),
            st'\<lparr>tickets :=
                  (if wp_status (body req) = Some ''failed''
                   then failTickets (tickets st') (the (wp_ticketIds (body req)))
                          (the (wp_transactionId (body req))) (wh_now req')
                   else tickets st')\<rparr>)"
proof -
  from assms(1) have gates: "truthy (hdr_idempotency_key req)" "truthy (hdr_signature req)"
    "hdr_signature req = Some (sign (body req))" "\<not> missingRequiredFields (body req)"
    by (auto simp: handlePaymentWebhook_def split: if_splits)
  from assms(1) have ns: "wp_status (body req) \<noteq> Some ''success''"
    using webhook_success_aborts [of req sign st] by auto
  from assms(1) gates ns have ack:
    "ack = \<lparr>ack_code = 200, acknowledged = True, ack_timestamp = wh_now req,
            ack_transactionId = the (wp_transactionId (body req)),
            ack_ticketCount = length (the (wp_ticketIds (body req)))\<rparr>"
    by (auto simp: handlePaymentWebhook_def Let_def split: if_splits)
  show ?thesis
    using gates ns assms(2-4)
    by (simp add: handlePaymentWebhook_def Let_def ack)
qed

lemma webhook_success_db0:
  "handlePaymentWebhook exampleHmac db0 (deliveryA\<lparr>wh_now := n\<rparr>) = (Inl ReferenceError, db0)"
  by (simp add: handlePaymentWebhook_def Let_def truthy_def missingRequiredFields_def
      findTickets_def transactionId_def abortTransaction_def
      deliveryA_def payloadA_def exampleHmac_def db0_def ticketA_def)

lemma webhook_failed_db0:
  "handlePaymentWebhook exampleHmac db0 deliveryFailed = (Inr ackFailed, db_failed)"
  by (simp add: handlePaymentWebhook_def Let_def truthy_def missingRequiredFields_def
      failTickets_def deliveryFailed_def payloadFailed_def payloadA_def exampleHmac_def
      db0_def db_failed_def ticketA_def ackFailed_def)


lemma webhook_db_two:
  "handlePaymentWebhook exampleHmac db_two deliveryTwo = (Inl ReferenceError, db_two)"
  by (simp add: handlePaymentWebhook_def Let_def truthy_def missingRequiredFields_def
      findTickets_def transactionId_def abortTransaction_def
      deliveryTwo_def payloadA_def exampleHmac_def db_two_def ticketB_def ticketA_def
      ticketA_id_def ticketB_id_def)

text \<open>
  C3, as the claim states it, fails: a delivery with a forged signature and no
  idempotency key is rejected by the first gate with 400, not with 401.
\<close>

theorem webhook_forged_without_key_is_400:
  "hdr_signature deliveryForgedNoKey \<noteq> Some (exampleHmac (body deliveryForgedNoKey)) \<and>
   handlePaymentWebhook exampleHmac db0 deliveryForgedNoKey
     = (Inl (AppError ''Idempotency key required'' 400), db0) \<and>
   statusCode (AppError ''Idempotency key required'' 400) \<noteq> 401"
  by (simp add: handlePaymentWebhook_def truthy_def deliveryForgedNoKey_def deliveryForged_def
      deliveryA_def payloadA_def exampleHmac_def)

text \<open>
  C3, amended.  Every delivery whose signature header is not the HMAC of the
  body under the shared secret is rejected, whatever the payload, and the store
  is the one before the delivery (no ticket, event or payment changes): with
  401 when the delivery carries an idempotency key, and with 400 by the earlier
  gate when it does not.
\<close>

theorem webhook_invalid_signature_rejected:
  assumes "hdr_signature req \<noteq> Some (sign (body req))"
  shows "handlePaymentWebhook sign st req =
           (Inl (if truthy (hdr_idempotency_key req)
                 then AppError ''Invalid webhook signature'' 401
                 else AppError ''Idempotency key required'' 400), st)"
  using assms by (simp add: handlePaymentWebhook_def)

theorem webhook_invalid_signature_rejected_witness:
  "hdr_signature deliveryForged \<noteq> Some (exampleHmac (body deliveryForged)) \<and>
   truthy (hdr_idempotency_key deliveryForged) \<and>
   \<not> missingRequiredFields (body deliveryForged) \<and>
   handlePaymentWebhook exampleHmac db0 deliveryForged
     = (Inl (AppError ''Invalid webhook signature'' 401), db0)"
proof -
  have a: "hdr_signature deliveryForged \<noteq> Some (exampleHmac (body deliveryForged))"
    by (simp add: deliveryForged_def deliveryA_def payloadA_def exampleHmac_def)
  have b: "truthy (hdr_idempotency_key deliveryForged)"
    by (simp add: truthy_def deliveryForged_def deliveryA_def)
  have c: "\<not> missingRequiredFields (body deliveryForged)"
    by (simp add: missingRequiredFields_def truthy_def deliveryForged_def deliveryA_def
        payloadA_def)
  show ?thesis
    using webhook_invalid_signature_rejected [where sign = exampleHmac and req = deliveryForged and st = db0, OF a]
      a b c by simp
qed


text \<open>
  C9.  The claim says that the success path raises the sold counter of each
  tier of the batch by one.  In the code every success delivery ends in an
  error with the store as it was before the delivery: a delivery that passes
  all the tests reaches \<^verbatim>\<open>new Payment\<close>, which throws, and the transaction
  with the staged increment is aborted.  No event, and so no counter of any
  tier, is changed by any delivery.
\<close>

theorem webhook_success_moves_no_counter:
  assumes "wp_status (body req) = Some ''success''"
  shows "(\<exists>e. handlePaymentWebhook sign st req = (Inl e, st)) \<and>
         events (snd (handlePaymentWebhook sign st req)) = events st"
  using webhook_success_aborts [OF assms] webhook_events_unchanged by blast

theorem webhook_success_moves_no_counter_witness:
  "wp_status (body deliveryTwo) = Some ''success'' \<and>
   map tier (findTickets (tickets db_two) (the (wp_ticketIds (body deliveryTwo))))
     = [''General'', ''General''] \<and>
   the (wp_amount (body deliveryTwo))
     = sum_list (map price (findTickets (tickets db_two) (the (wp_ticketIds (body deliveryTwo))))) \<and>
   handlePaymentWebhook exampleHmac db_two deliveryTwo = (Inl ReferenceError, db_two) \<and>
   events (snd (handlePaymentWebhook exampleHmac db_two deliveryTwo)) = [eventA_open, eventB_doc]"
proof -
  have s: "wp_status (body deliveryTwo) = Some ''success''"
    by (simp add: deliveryTwo_def payloadA_def Let_def)
  have t: "map tier (findTickets (tickets db_two) (the (wp_ticketIds (body deliveryTwo))))
             = [''General'', ''General'']"
    by (simp add: findTickets_def db_two_def deliveryTwo_def payloadA_def ticketB_def ticketA_def
        Let_def)
  have a: "the (wp_amount (body deliveryTwo))
     = sum_list (map price (findTickets (tickets db_two) (the (wp_ticketIds (body deliveryTwo)))))"
    by (simp add: findTickets_def db_two_def deliveryTwo_def payloadA_def ticketB_def ticketA_def
        Let_def)
  have e: "events db_two = [eventA_open, eventB_doc]"
    by (simp add: db_two_def)
  from webhook_success_moves_no_counter
         [where sign = exampleHmac and st = db_two and req = deliveryTwo, OF s]
  have "events (snd (handlePaymentWebhook exampleHmac db_two deliveryTwo)) = events db_two"
    by blast
  then show ?thesis
    using s t a e by (simp add: webhook_db_two)
qed



text \<open>
  C4.  The claim says that a redelivery of a processed webhook is answered
  with the original acknowledgement and is not processed again.  In the code
  no success delivery is ever acknowledged, the first time or again; and a
  delivery that was acknowledged (its status is not success) is, when it comes
  again with the same payload, signature and any idempotency key, processed
  like a new one: the handler builds a new acknowledgement with the time of the
  redelivery and applies the update of the failed path again.  The idempotency
  key is only tested for presence.
\<close>

theorem webhook_redelivery_is_processed_again:
  "(wp_status (body req) = Some ''success'' \<longrightarrow>
      (\<exists>e. handlePaymentWebhook sign st req = (Inl e, st))) \<and>
   (handlePaymentWebhook sign st req = (Inr ack, st') \<and> body req' = body req \<and>
    hdr_signature req' = hdr_signature req \<and> truthy (hdr_idempotency_key req') \<longrightarrow>
      handlePaymentWebhook sign st' req' =
        (Inr (ack\<lparr>ack_timestamp := wh_now req'\<rparr>),
         st'\<lparr>tickets :=
               (if wp_status (body req) = Some ''failed''
                then failTickets (tickets st') (the (wp_ticketIds (body req)))
                       (the (wp_transactionId (body req))) (wh_now req')
                else tickets st')\<rparr>))"
  using webhook_success_aborts [of req sign st] webhook_redelivery [of sign st req ack st' req']
  by blast

theorem webhook_redelivery_is_processed_again_witness:
  "wp_status (body deliveryA) = Some ''success'' \<and>
   handlePaymentWebhook exampleHmac db0 deliveryA = (Inl ReferenceError, db0) \<and>
   handlePaymentWebhook exampleHmac db0 (deliveryA\<lparr>wh_now := 7500\<rparr>) = (Inl ReferenceError, db0) \<and>
   statusCode ReferenceError = 500 \<and>
   handlePaymentWebhook exampleHmac db0 deliveryFailed = (Inr ackFailed, db_failed) \<and>
   handlePaymentWebhook exampleHmac db_failed (deliveryFailed\<lparr>wh_now := 7500\<rparr>)
     = (Inr (ackFailed\<lparr>ack_timestamp := 7500\<rparr>),
        db0\<lparr>tickets := [ticketA\<lparr>updatedAt := 7500\<rparr>]\<rparr>) \<and>
   ackFailed\<lparr>ack_timestamp := 7500\<rparr> \<noteq> ackFailed \<and>
   map updatedAt (tickets db_failed) = [7000]"
proof -
  have s: "wp_status (body deliveryA) = Some ''success''"
    by (simp add: deliveryA_def payloadA_def)
  have f: "wp_status (body deliveryFailed) = Some ''failed''"
    "the (wp_ticketIds (body deliveryFailed)) = [ticketA_id]"
    by (simp_all add: deliveryFailed_def payloadFailed_def payloadA_def)
  have k: "truthy (hdr_idempotency_key (deliveryFailed\<lparr>wh_now := 7500\<rparr>))"
    by (simp add: truthy_def deliveryFailed_def)
  have again: "failTickets (tickets db_failed) [ticketA_id] txn 7500 = [ticketA\<lparr>updatedAt := 7500\<rparr>]"
    for txn
    by (simp add: failTickets_def db_failed_def ticketA_def)
  note T = webhook_redelivery_is_processed_again
             [where sign = exampleHmac and st = db0 and req = deliveryFailed and ack = ackFailed
                and st' = db_failed and req' = "deliveryFailed\<lparr>wh_now := 7500\<rparr>"]
  have "handlePaymentWebhook exampleHmac db_failed (deliveryFailed\<lparr>wh_now := 7500\<rparr>)
     = (Inr (ackFailed\<lparr>ack_timestamp := 7500\<rparr>),
        db_failed\<lparr>tickets := [ticketA\<lparr>updatedAt := 7500\<rparr>]\<rparr>)"
    using T webhook_failed_db0 k f by (simp add: again)
  moreover have "db_failed\<lparr>tickets := [ticketA\<lparr>updatedAt := 7500\<rparr>]\<rparr>
                   = db0\<lparr>tickets := [ticketA\<lparr>updatedAt := 7500\<rparr>]\<rparr>"
    by (simp add: db_failed_def)
  moreover have "ackFailed\<lparr>ack_timestamp := 7500\<rparr> \<noteq> ackFailed"
    by (simp add: ackFailed_def)
  moreover have "map updatedAt (tickets db_failed) = [7000]"
    by (simp add: db_failed_def)
  moreover have "handlePaymentWebhook exampleHmac db0 deliveryA = (Inl ReferenceError, db0)"
    using webhook_success_db0 [of "wh_now deliveryA"] by simp
  ultimately show ?thesis
    using s by (simp add: webhook_success_db0 webhook_failed_db0)
qed


section \<open>Capacity\<close>

lemma findEvent_map:
  assumes "\<And>e. event_id (f e) = event_id e"
  shows "findEvent (map f es) i = map_option f (findEvent es i)"
  unfolding findEvent_def by (induction es) (auto simp: assms)

lemma purchase_ignores_tiers:
  "fst (purchase env (st\<lparr>events := map (\<lambda>e. e\<lparr>ticketTypes := f e\<rparr>) (events st)\<rparr>) rq)
     = fst (purchase env st rq)"
  by (simp add: purchase_def findEvent_map split: option.splits sum.splits prod.splits)

lemma purchase_events: "events (snd (purchase env st rq)) = events st"
  by (simp add: purchase_def split: option.splits sum.splits prod.splits)

lemma batchPurchase_ignores_tiers:
  "fst (batchPurchase env (st\<lparr>events := map (\<lambda>e. e\<lparr>ticketTypes := f e\<rparr>) (events st)\<rparr>) rq)
     = fst (batchPurchase env st rq)"
  by (simp add: batchPurchase_def findEvent_map split: option.splits sum.splits prod.splits)

lemma batchPurchase_events: "events (snd (batchPurchase env st rq)) = events st"
  by (simp add: batchPurchase_def split: option.splits sum.splits prod.splits)

lemma dec_2000: "dec 2000 = ''2000''"
  by code_simp

lemma purchase_db0:
  "purchase env0 db0 purchaseByBob = (Inr (Created ticketBob), db0\<lparr>tickets := [ticketA, ticketBob]\<rparr>)"
  by (simp add: purchase_def findEvent_def createSingleTicket_def tierPrice_def insertTicket_def
      scanToken_def dec_2000 Let_def env0_def db0_def purchaseByBob_def ticketBob_def ticketA_def
      eventA_doc_def eventA_def bob_def ticketA_id_def ticketB_id_def)

lemma dec_2001: "dec 2001 = ''2001''"
  by code_simp

lemma batch_db0:
  "map_sum id (\<lambda>(n, created). (n, map ticket_id created, map qrData created, map price created))
     (fst (batchPurchase env0 db0 batchByBob))
   = Inr (2, [ticketB_id, ticketC_id],
          [''ESWATICKET:64e000000000000000000001:64b000000000000000000002:2000'',
           ''ESWATICKET:64e000000000000000000001:64b000000000000000000002:2001''],
          [200, 200])"
  by (simp add: batchPurchase_def findEvent_def tiersOf_def createSingleTicket_def tierPrice_def
      insertTicket_def scanToken_def dec_2000 dec_2001 Let_def env0_def db0_def batchByBob_def
      ticketA_def eventA_doc_def eventA_def bob_def ticketA_id_def ticketB_id_def ticketC_id_def
      numeral_2_eq_2)

text \<open>
  C2, as the claim states it, fails.  In the example store the General tier of
  event A has capacity 1 and nothing available, and the one ticket it allows is
  issued; still bob's purchase of a General ticket for the event is answered
  with the created ticket, and two tickets are then issued for the tier.
\<close>

theorem capacity_not_enforced:
  "map (\<lambda>e. map (\<lambda>tt. (name tt, capacity tt, available tt)) (ticketTypes e)) (events db0)
     = [[(''General'', 1, Some 0)]] \<and>
   issuedFor (tickets db0) eventA ''General'' = 1 \<and>
   fst (purchase env0 db0 purchaseByBob) = Inr (Created ticketBob) \<and>
   event ticketBob = eventA \<and> tier ticketBob = ''General'' \<and>
   issuedFor (tickets (snd (purchase env0 db0 purchaseByBob))) eventA ''General'' = 2"
proof -
  have "map (\<lambda>e. map (\<lambda>tt. (name tt, capacity tt, available tt)) (ticketTypes e)) (events db0)
     = [[(''General'', 1, Some 0)]]"
    by (simp add: db0_def eventA_doc_def generalTier_def)
  moreover have "issuedFor (tickets db0) eventA ''General'' = 1"
    by (simp add: issuedFor_def db0_def ticketA_def)
  moreover have "event ticketBob = eventA" "tier ticketBob = ''General''"
    by (simp_all add: ticketBob_def)
  moreover have "issuedFor [ticketA, ticketBob] eventA ''General'' = 2"
    by (simp add: issuedFor_def ticketA_def ticketBob_def)
  ultimately show ?thesis
    by (simp add: purchase_db0)
qed

text \<open>
  C2, amended.  Ticket issuance does not consult capacity: the outcome of a
  single purchase and of a batch purchase is the same whatever the tiers of
  the events hold (capacity included), so issuance also succeeds for a tier
  whose capacity is used up, and both leave every event as it is.
\<close>

theorem capacity_is_not_consulted:
  "fst (purchase env (st\<lparr>events := map (\<lambda>e. e\<lparr>ticketTypes := f e\<rparr>) (events st)\<rparr>) rq)
     = fst (purchase env st rq) \<and>
   events (snd (purchase env st rq)) = events st \<and>
   fst (batchPurchase env (st\<lparr>events := map (\<lambda>e. e\<lparr>ticketTypes := f e\<rparr>) (events st)\<rparr>) brq)
     = fst (batchPurchase env st brq) \<and>
   events (snd (batchPurchase env st brq)) = events st"
  by (simp only: purchase_ignores_tiers purchase_events batchPurchase_ignores_tiers
      batchPurchase_events simp_thms)

theorem capacity_is_not_consulted_witness:
  "fst (purchase env0 (db0\<lparr>events := map (\<lambda>e. e\<lparr>ticketTypes := []\<rparr>) (events db0)\<rparr>) purchaseByBob)
     = Inr (Created ticketBob) \<and>
   fst (purchase env0 db0 purchaseByBob) = Inr (Created ticketBob) \<and>
   events (snd (purchase env0 db0 purchaseByBob)) = events db0 \<and>
   map_sum id (\<lambda>(n, created). (n, map ticket_id created, map qrData created, map price created))
     (fst (batchPurchase env0 (db0\<lparr>events := map (\<lambda>e. e\<lparr>ticketTypes := []\<rparr>) (events db0)\<rparr>)
             batchByBob))
     = Inr (2, [ticketB_id, ticketC_id],
            [''ESWATICKET:64e000000000000000000001:64b000000000000000000002:2000'',
             ''ESWATICKET:64e000000000000000000001:64b000000000000000000002:2001''],
            [200, 200]) \<and>
   events (snd (batchPurchase env0 db0 batchByBob)) = events db0"
proof -
  note T = capacity_is_not_consulted
         [where env = env0 and st = db0 and f = "\<lambda>e. []" and rq = purchaseByBob
            and brq = batchByBob]
  have 1: "fst (purchase env0 (db0\<lparr>events := map (\<lambda>e. e\<lparr>ticketTypes := []\<rparr>) (events db0)\<rparr>)
                  purchaseByBob) = Inr (Created ticketBob)"
    using T by (simp add: purchase_db0)
  have 2: "events (snd (purchase env0 db0 purchaseByBob)) = events db0"
    using T by blast
  have 3: "fst (batchPurchase env0 (db0\<lparr>events := map (\<lambda>e. e\<lparr>ticketTypes := []\<rparr>) (events db0)\<rparr>)
                  batchByBob) = fst (batchPurchase env0 db0 batchByBob)"
    using T by blast
  have 4: "events (snd (batchPurchase env0 db0 batchByBob)) = events db0"
    using T by blast
  have 5: "fst (purchase env0 db0 purchaseByBob) = Inr (Created ticketBob)"
    by (simp add: purchase_db0)
  show ?thesis
    using 1 2 4 5 unfolding 3 batch_db0 by blast
qed


section \<open>Ticket lifecycle: validate and transfer\<close>

lemma qrPayload_tokenA:
  "qrPayload ''ESWATICKET:64e000000000000000000001:64a000000000000000000001:1000''
     = Inr ''ESWATICKET:64e000000000000000000001:64a000000000000000000001:1000''"
  by (simp add: qrPayload_def split_str_def)

lemma validate_db0:
  "validate env0 db0 scanA =
     (Inr \<lparr>valid = True, vb_event_id = eventA, vb_event_name = ''Bushfire'',
            vb_attendee_email = ''alice@example.sz'', validatedAt = 3000\<rparr>, db_used)"
  by (simp add: validate_def qrPayload_tokenA findByScan_def save_def findEvent_def findUser_def
      locationOr_def truthy_def scanA_def db0_def db_used_def ticketA_used_def ticketA_def
      eventA_doc_def alice_doc_def bob_doc_def alice_def bob_def)

lemma transfer_never_answers:
  "\<exists>e. transfer env st rq = (Inl e, st)"
  by (cases "findById (tickets st) (tf_ticketId rq)")
    (simp_all add: transfer_def validateTicketOwnership_def)

lemma transfer_db0:
  "transfer env0 db0 transferToBob = (Inl ReferenceError, db0)"
  by (simp add: transfer_def validateTicketOwnership_def findById_def transferToBob_def
      db0_def ticketA_def)

lemma transfer_earlier_db0:
  "transfer_earlier env0 db0 transferToBob =
     (Inr (''Ticket transferred to bob@example.sz'', ''data:image/png;base64,iVBORw0KGgo=''),
      db_transferred)"
  by (simp add: transfer_earlier_def validateTicketOwnership_earlier_def findById_def
      findUserByEmail_def transferAssignments_def assign_qrData_def qrData_immutable_def
      save_def Let_def env0_def transferToBob_def db0_def db_transferred_def
      ticketA_transferred_def ticketA_def alice_doc_def bob_doc_def)

lemma validate_db_transferred:
  "validate env0 db_transferred scanA =
     (Inr \<lparr>valid = True, vb_event_id = eventA, vb_event_name = ''Bushfire'',
            vb_attendee_email = ''bob@example.sz'', validatedAt = 3000\<rparr>,
      db_transferred\<lparr>tickets :=
        [ticketA_transferred\<lparr>isUsed := True,
           validationHistory :=
             [\<lparr>timestamp = 3000, validatedBy = staff, location = ''Gate 1''\<rparr>],
           updatedAt := 3000\<rparr>]\<rparr>)"
  by (simp add: validate_def qrPayload_tokenA findByScan_def save_def findEvent_def findUser_def
      locationOr_def truthy_def scanA_def db0_def db_transferred_def ticketA_transferred_def
      ticketA_def eventA_doc_def alice_doc_def bob_doc_def alice_def bob_def)

lemma validate_success_effects:
  assumes "validate env st rq = (Inr b, st')"
  obtains payload t where
    "qrPayload (vr_qrData rq) = Inr payload"
    "findByScan env (tickets st) payload = Some t"
    "\<not> isUsed t"
    "st' = st\<lparr>tickets :=
            save (tickets st)
              (t\<lparr>isUsed := True,
                 validationHistory := validationHistory t @
                   [\<lparr>timestamp = vr_now rq, validatedBy = vr_user rq,
                     location = locationOr (vr_location rq)\<rparr>]\<rparr>)
              (vr_now rq)\<rparr>"
  using assms
  by (auto simp: validate_def Let_def split: sum.splits option.splits if_splits)

lemma transfer_earlier_success_effects:
  assumes "transfer_earlier env st rq = (Inr b, st')"
  obtains t recipient where
    "findById (tickets st) (tf_ticketId rq) = Some t"
    "owner t = tf_user rq"
    "findUserByEmail (users st) (tf_email rq) = Some recipient"
    "st' = st\<lparr>tickets :=
            save (tickets st)
              (t\<lparr>transferHistory := transferHistory t @
                   [\<lparr>tr_from = tf_user rq, tr_to = user_id recipient, tr_date = tf_now rq\<rparr>],
                 owner := user_id recipient\<rparr>)
              (tf_now rq)\<rparr>"
  using assms
  by (auto simp: transfer_earlier_def validateTicketOwnership_earlier_def Let_def
      transferAssignments_def assign_qrData_def qrData_immutable_def
      split: option.splits if_splits)

text \<open>
  C8 at the scan of ticket A.  The validation succeeds on the unused ticket,
  sets \<^verbatim>\<open>isUsed\<close> and appends one validation entry (time, validator,
  location); the stored \<^verbatim>\<open>status\<close> is still ACTIVE and not USED, since the
  route never assigns it.
\<close>

theorem validate_leaves_status_active:
  "isUsed ticketA = False \<and>
   fst (validate env0 db0 scanA) =
     Inr \<lparr>valid = True, vb_event_id = eventA, vb_event_name = ''Bushfire'',
           vb_attendee_email = ''alice@example.sz'', validatedAt = 3000\<rparr> \<and>
   map isUsed (tickets (snd (validate env0 db0 scanA))) = [True] \<and>
   map validationHistory (tickets (snd (validate env0 db0 scanA))) =
     [[\<lparr>timestamp = 3000, validatedBy = staff, location = ''Gate 1''\<rparr>]] \<and>
   map status (tickets (snd (validate env0 db0 scanA))) = [ACTIVE] \<and>
   ACTIVE \<noteq> USED"
  by (simp add: validate_db0 db_used_def ticketA_used_def ticketA_def)

text \<open>
  C7 at alice's transfer of ticket A to bob.  The route with transactions
  answers with the ReferenceError of its ownership helper and stores nothing,
  so no transfer of an existing ticket succeeds.  The earlier copy of the route
  does transfer the ticket: the owner is bob, but the stored \<^verbatim>\<open>qrData\<close> is
  still the token issued to alice (the path is immutable, the assignment of the
  new token is ignored) and the stored \<^verbatim>\<open>status\<close> is still ACTIVE; a scan of
  the token issued to alice validates the transferred ticket.
\<close>

theorem transfer_keeps_token_and_status:
  "transfer env0 db0 transferToBob = (Inl ReferenceError, db0) \<and>
   statusCode ReferenceError = 500 \<and>
   fst (transfer_earlier env0 db0 transferToBob) =
     Inr (''Ticket transferred to bob@example.sz'', ''data:image/png;base64,iVBORw0KGgo='') \<and>
   map owner (tickets (snd (transfer_earlier env0 db0 transferToBob))) = [bob] \<and>
   map qrData (tickets (snd (transfer_earlier env0 db0 transferToBob))) = [qrData ticketA] \<and>
   qrData ticketA \<noteq> scanToken eventA bob 2000 \<and>
   map status (tickets (snd (transfer_earlier env0 db0 transferToBob))) = [ACTIVE] \<and>
   ACTIVE \<noteq> TRANSFERRED \<and>
   vr_qrData scanA = qrData ticketA \<and>
   fst (validate env0 (snd (transfer_earlier env0 db0 transferToBob)) scanA) =
     Inr \<lparr>valid = True, vb_event_id = eventA, vb_event_name = ''Bushfire'',
           vb_attendee_email = ''bob@example.sz'', validatedAt = 3000\<rparr>"
proof -
  have "map owner (tickets db_transferred) = [bob]"
    and "map qrData (tickets db_transferred) = [qrData ticketA]"
    and "map status (tickets db_transferred) = [ACTIVE]"
    by (simp_all add: db_transferred_def ticketA_transferred_def ticketA_def)
  moreover have "qrData ticketA \<noteq> scanToken eventA bob 2000"
    by (simp add: ticketA_def scanToken_def dec_2000 eventA_def bob_def)
  moreover have "vr_qrData scanA = qrData ticketA"
    by (simp add: scanA_def ticketA_def)
  ultimately show ?thesis
    by (simp add: transfer_db0 transfer_earlier_db0 validate_db_transferred)
qed

section \<open>Operations on a used or refunded ticket\<close>

lemma validate_used:
  assumes "qrPayload (vr_qrData rq) = Inr payload"
    and "findByScan env (tickets st) payload = Some t"
    and "isUsed t"
  shows "validate env st rq = (Inl (AppError ''Ticket already used'' 400), st)"
  using assms by (simp add: validate_def)

lemma refund_terminal:
  assumes "findExistingRefund (tickets st) (rq_ticketId rq) (rq_idempotencyKey rq) = None"
    and "findById (tickets st) (rq_ticketId rq) = Some t"
    and "isUsed t \<or> status t = REFUNDED"
  shows "processRefund st rq =
           (Inl (if owner t \<noteq> rq_user rq then AppError ''You do not own this ticket'' 403
                 else if isUsed t then Error ''Cannot refund used ticket''
                 else Error ''Ticket already refunded''), st)"
  using assms by (auto simp: processRefund_def Ticket_processRefund_def)

lemma validate_db_used:
  "validate env0 db_used scanA = (Inl (AppError ''Ticket already used'' 400), db_used)"
  by (rule validate_used [where payload = "vr_qrData scanA" and t = ticketA_used])
    (simp_all add: qrPayload_tokenA findByScan_def scanA_def db_used_def ticketA_used_def
      ticketA_def)

lemma refund_db_used:
  "processRefund db_used refundByAlice = (Inl (Error ''Cannot refund used ticket''), db_used)"
  by (simp add: processRefund_def findExistingRefund_def findRefund_def findById_def
      Ticket_processRefund_def db_used_def ticketA_used_def ticketA_def refundByAlice_def)

lemma validate_db_refunded:
  "fst (validate env0 db_refunded scanA) =
     Inr \<lparr>valid = True, vb_event_id = eventA, vb_event_name = ''Bushfire'',
           vb_attendee_email = ''alice@example.sz'', validatedAt = 3000\<rparr>"
  by (simp add: validate_def qrPayload_tokenA findByScan_def save_def findEvent_def findUser_def
      locationOr_def truthy_def scanA_def db0_def db_refunded_def ticketA_refunded_def
      ticketA_def eventA_doc_def alice_doc_def bob_doc_def alice_def bob_def)

text \<open>
  C1, as the claim states it, fails.  On the used ticket a second scan is
  rejected with 400 and a refund with a fresh idempotency key with the plain
  error of the model method (500 through the error handler): neither is the
  409 conflict.  On the refunded, unused ticket a scan is not rejected at all.
\<close>

theorem terminal_ticket_errors_are_not_conflicts:
  "isUsed ticketA_used \<and>
   fst (validate env0 db_used scanA) = Inl (AppError ''Ticket already used'' 400) \<and>
   statusCode (AppError ''Ticket already used'' 400) \<noteq> 409 \<and>
   findRefund (refundHistory ticketA_used) (rq_idempotencyKey refundByAlice) = None \<and>
   fst (processRefund db_used refundByAlice) = Inl (Error ''Cannot refund used ticket'') \<and>
   statusCode (Error ''Cannot refund used ticket'') \<noteq> 409 \<and>
   status ticketA_refunded = REFUNDED \<and>
   fst (validate env0 db_refunded scanA) =
     Inr \<lparr>valid = True, vb_event_id = eventA, vb_event_name = ''Bushfire'',
           vb_attendee_email = ''alice@example.sz'', validatedAt = 3000\<rparr>"
  by (simp add: validate_db_used refund_db_used validate_db_refunded findRefund_def
      ticketA_used_def ticketA_refunded_def ticketA_def)

text \<open>
  C1, amended.  For a ticket whose usage flag is set: a scan that finds it is
  rejected with the 400 error \<^verbatim>\<open>Ticket already used\<close>, and the model method
  \<^verbatim>\<open>transferTicket\<close> called by its owner throws \<^verbatim>\<open>Cannot transfer used ticket\<close>.
  For a ticket whose usage flag is set or whose status is REFUNDED: a refund
  request whose idempotency key is in no refund entry of the ticket is
  rejected, with 403 for a requester who is not the owner and otherwise with
  the plain error \<^verbatim>\<open>Cannot refund used ticket\<close> or \<^verbatim>\<open>Ticket already refunded\<close>
  (500 through the error handler).  None of these is a 409, and every one of
  these rejections leaves the store, and so the owner, the usage flag and the
  histories of the ticket, as it was.
\<close>

theorem terminal_ticket_operations_rejected:
  "(qrPayload (vr_qrData vrq) = Inr payload \<and> findByScan env (tickets st) payload = Some t \<and>
      isUsed t \<longrightarrow>
      validate env st vrq = (Inl (AppError ''Ticket already used'' 400), st)) \<and>
   (owner t = u \<and> isUsed t \<longrightarrow>
      transferTicket t newOwner u now = Inl (Error ''Cannot transfer used ticket'')) \<and>
   (findExistingRefund (tickets st) (rq_ticketId rq) (rq_idempotencyKey rq) = None \<and>
      findById (tickets st) (rq_ticketId rq) = Some t \<and> (isUsed t \<or> status t = REFUNDED) \<longrightarrow>
      processRefund st rq =
        (Inl (if owner t \<noteq> rq_user rq then AppError ''You do not own this ticket'' 403
              else if isUsed t then Error ''Cannot refund used ticket''
              else Error ''Ticket already refunded''), st)) \<and>
   statusCode (AppError ''Ticket already used'' 400) = 400 \<and>
   statusCode (AppError ''You do not own this ticket'' 403) = 403 \<and>
   statusCode (Error ''Cannot transfer used ticket'') = 500 \<and>
   statusCode (Error ''Cannot refund used ticket'') = 500 \<and>
   statusCode (Error ''Ticket already refunded'') = 500"
  using validate_used [of vrq payload env st t] refund_terminal [of st rq t]
  by (simp add: transferTicket_def)

theorem terminal_ticket_operations_rejected_witness:
  "isUsed ticketA_used \<and> owner ticketA_used = alice \<and>
   validate env0 db_used scanA = (Inl (AppError ''Ticket already used'' 400), db_used) \<and>
   transferTicket ticketA_used bob alice 4000 = Inl (Error ''Cannot transfer used ticket'') \<and>
   processRefund db_used refundByAlice = (Inl (Error ''Cannot refund used ticket''), db_used) \<and>
   processRefund db_used refundByBob = (Inl (AppError ''You do not own this ticket'' 403), db_used) \<and>
   status ticketA_refunded = REFUNDED \<and> \<not> isUsed ticketA_refunded \<and>
   processRefund db_refunded (refundByAlice\<lparr>rq_idempotencyKey := ''key-2''\<rparr>)
     = (Inl (Error ''Ticket already refunded''), db_refunded)"
proof -
  let ?rq2 = "refundByAlice\<lparr>rq_idempotencyKey := ''key-2''\<rparr>"
  have used: "isUsed ticketA_used" "owner ticketA_used = alice"
    by (simp_all add: ticketA_used_def ticketA_def)
  have refunded: "status ticketA_refunded = REFUNDED" "\<not> isUsed ticketA_refunded"
    "owner ticketA_refunded = alice"
    by (simp_all add: ticketA_refunded_def ticketA_def)
  have scan: "qrPayload (vr_qrData scanA) = Inr (vr_qrData scanA)"
    by (simp add: scanA_def qrPayload_tokenA)
  have found: "findByScan env0 (tickets db_used) (vr_qrData scanA) = Some ticketA_used"
    by (simp add: findByScan_def scanA_def db_used_def ticketA_used_def ticketA_def)
  have byId: "findById (tickets db_used) (rq_ticketId refundByAlice) = Some ticketA_used"
    "findById (tickets db_used) (rq_ticketId refundByBob) = Some ticketA_used"
    by (simp_all add: findById_def db_used_def ticketA_used_def ticketA_def refundByBob_def
        refundByAlice_def)
  have fresh: "findExistingRefund (tickets db_used) (rq_ticketId refundByAlice)
                 (rq_idempotencyKey refundByAlice) = None"
    "findExistingRefund (tickets db_used) (rq_ticketId refundByBob)
                 (rq_idempotencyKey refundByBob) = None"
    by (simp_all add: findExistingRefund_def findRefund_def db_used_def ticketA_used_def
        ticketA_def refundByBob_def refundByAlice_def)
  have byId2: "findById (tickets db_refunded) (rq_ticketId ?rq2) = Some ticketA_refunded"
    by (simp add: findById_def db_refunded_def ticketA_refunded_def ticketA_def
        refundByAlice_def)
  have fresh2: "findExistingRefund (tickets db_refunded) (rq_ticketId ?rq2)
                  (rq_idempotencyKey ?rq2) = None"
    by (simp add: findExistingRefund_def findRefund_def db_refunded_def ticketA_refunded_def
        ticketA_def refundByAlice_def)
  have users: "rq_user refundByAlice = alice" "rq_user refundByBob \<noteq> alice" "rq_user ?rq2 = alice"
    by (simp_all add: refundByBob_def refundByAlice_def alice_def bob_def)
  note A = terminal_ticket_operations_rejected
             [where vrq = scanA and payload = "vr_qrData scanA" and env = env0 and st = db_used
                and t = ticketA_used and u = alice and newOwner = bob and now = 4000
                and rq = refundByAlice]
  note B = terminal_ticket_operations_rejected
             [where st = db_used and t = ticketA_used and rq = refundByBob]
  note C = terminal_ticket_operations_rejected
             [where st = db_refunded and t = ticketA_refunded and rq = ?rq2]
  have 1: "validate env0 db_used scanA = (Inl (AppError ''Ticket already used'' 400), db_used)"
    using A scan found used by blast
  have 2: "transferTicket ticketA_used bob alice 4000 = Inl (Error ''Cannot transfer used ticket'')"
    using A used by blast
  have 3: "processRefund db_used refundByAlice = (Inl (Error ''Cannot refund used ticket''), db_used)"
    using A fresh byId used users by simp
  have 4: "processRefund db_used refundByBob
             = (Inl (AppError ''You do not own this ticket'' 403), db_used)"
    using B fresh byId used users by simp
  have 5: "processRefund db_refunded ?rq2 = (Inl (Error ''Ticket already refunded''), db_refunded)"
    using C fresh2 byId2 refunded users by simp
  show ?thesis
    using 1 2 3 4 5 used refunded by blast
qed

end
